theory Spec2Isabelle
  imports Main
begin

section \<open>JavaScript values used by the pet routes\<close>

text \<open>
  The handlers of \<^verbatim>\<open>src/routes/api/pet.js\<close> build plain JavaScript objects (the
  aggregation pipeline, the pet document, the edit record, the response bodies).  An object
  is an association list in insertion order, which is the order JavaScript keeps for string
  keys.  A number is an IEEE double.  Every number the handlers compute comes from
  \<^verbatim>\<open>parseInt\<close>, a subtraction and a product, so it is \<^verbatim>\<open>NaN\<close>, an infinity, the
  negative zero, or a double whose value is an integer (\<open>Fin 0\<close> is the positive zero).
  A string is the list of the bytes of its UTF-8 encoding.  Dates are milliseconds, identifiers
  (\<^verbatim>\<open>ObjectId\<close>) are their hexadecimal text.
\<close>

datatype number = NaN | PosInf | NegInf | NegZero | Fin int

datatype jsval =
    JStr string
  | JNum number
  | JDate int
  | JId string
  | JArr "jsval list"
  | JObj "(string \<times> jsval) list"

type_synonym obj = "(string \<times> jsval) list"

text \<open>\<^verbatim>\<open>o[k] = v\<close>: an existing key keeps its position, a new key goes last.\<close>

fun obj_set :: "obj \<Rightarrow> string \<Rightarrow> jsval \<Rightarrow> obj" where
  "obj_set [] k v = [(k, v)]"
| "obj_set ((k', v') # kvs) k v =
     (if k' = k then (k, v) # kvs else (k', v') # obj_set kvs k v)"

text \<open>\<^verbatim>\<open>o[k]\<close>, with \<open>None\<close> for \<^verbatim>\<open>undefined\<close>.\<close>

definition obj_get :: "obj \<Rightarrow> string \<Rightarrow> jsval option" where
  "obj_get ob k = map_of ob k"

text \<open>
  \<^verbatim>\<open>_.pick(object, ...paths)\<close> of lodash: a new object with the listed keys that the
  source object has, in the order of the paths.
\<close>

fun pick :: "obj \<Rightarrow> string list \<Rightarrow> obj" where
  "pick ob [] = []"
| "pick ob (k # ks) =
     (case map_of ob k of
        None \<Rightarrow> pick ob ks
      | Some v \<Rightarrow> (k, v) # pick ob ks)"

text \<open>\<^verbatim>\<open>_.isEmpty(object)\<close> on a plain object: it has no own key.\<close>

definition isEmpty :: "obj \<Rightarrow> bool" where
  "isEmpty ob = (ob = [])"

section \<open>Numbers: double arithmetic on integers\<close>

text \<open>
  The double nearest to a natural number \<open>m\<close>.  A double has 53 significant bits:
  \<open>expo m\<close> is the number of low bits of \<open>m\<close> that do not fit, and \<open>roundMag m\<close>
  rounds them away, to the nearest multiple of \<open>2 ^ expo m\<close> and to the even one on a tie.
\<close>

fun expo :: "nat \<Rightarrow> nat" where
  "expo m = (if m < 2 ^ 53 then 0 else Suc (expo (m div 2)))"

declare expo.simps [simp del]

definition roundMag :: "nat \<Rightarrow> nat" where
  "roundMag m =
     (let e = expo m;
          q = m div 2 ^ e;
          r = m mod 2 ^ e
      in (if 2 ^ e < 2 * r \<or> (2 * r = 2 ^ e \<and> odd q) then q + 1 else q) * 2 ^ e)"

text \<open>A rounded magnitude of \<open>2 ^ 1024\<close> or more is an infinity.\<close>

definition overflowBound :: nat where
  "overflowBound = 2 ^ 1024"

text \<open>The double for an integer other than 0 (and the positive zero for 0).\<close>

definition toNumber :: "int \<Rightarrow> number" where
  "toNumber x =
     (let mag = roundMag (nat \<bar>x\<bar>) in
      if overflowBound \<le> mag then (if x < 0 then NegInf else PosInf)
      else Fin (if x < 0 then - int mag else int mag))"

fun isInf :: "number \<Rightarrow> bool" where
  "isInf PosInf = True"
| "isInf NegInf = True"
| "isInf _ = False"

fun isZero :: "number \<Rightarrow> bool" where
  "isZero NegZero = True"
| "isZero (Fin n) = (n = 0)"
| "isZero _ = False"

fun signBit :: "number \<Rightarrow> bool" where
  "signBit NegInf = True"
| "signBit NegZero = True"
| "signBit (Fin n) = (n < 0)"
| "signBit _ = False"

fun intOf :: "number \<Rightarrow> int" where
  "intOf (Fin n) = n"
| "intOf _ = 0"

text \<open>Below zero, above zero; neither holds of a zero or of \<^verbatim>\<open>NaN\<close>.\<close>

fun negative :: "number \<Rightarrow> bool" where
  "negative NegInf = True"
| "negative (Fin n) = (n < 0)"
| "negative _ = False"

fun positive :: "number \<Rightarrow> bool" where
  "positive PosInf = True"
| "positive (Fin n) = (0 < n)"
| "positive _ = False"


text \<open>A number is truthy when it is neither \<^verbatim>\<open>NaN\<close> nor a zero.\<close>

definition truthyNum :: "number \<Rightarrow> bool" where
  "truthyNum v = (v \<noteq> NaN \<and> \<not> isZero v)"

text \<open>
  \<^verbatim>\<open>a || b\<close>, \<^verbatim>\<open>a - b\<close> and \<^verbatim>\<open>a * b\<close> on numbers.  The difference and the product of
  two finite numbers are the exact integer, rounded; an exact 0 keeps the sign IEEE gives it.
\<close>

definition orNum :: "number \<Rightarrow> number \<Rightarrow> number" where
  "orNum a b = (if truthyNum a then a else b)"

definition subNum :: "number \<Rightarrow> number \<Rightarrow> number" where
  "subNum a b =
     (if a = NaN \<or> b = NaN then NaN
      else if isInf a then (if a = b then NaN else a)
      else if isInf b then (if b = PosInf then NegInf else PosInf)
      else if intOf a - intOf b = 0 then (if a = NegZero \<and> b = Fin 0 then NegZero else Fin 0)
      else toNumber (intOf a - intOf b))"

definition mulNum :: "number \<Rightarrow> number \<Rightarrow> number" where
  "mulNum a b =
     (if a = NaN \<or> b = NaN then NaN
      else if isInf a \<or> isInf b then
        (if isZero a \<or> isZero b then NaN
         else if signBit a = signBit b then PosInf else NegInf)
      else if intOf a * intOf b = 0 then (if signBit a = signBit b then Fin 0 else NegZero)
      else toNumber (intOf a * intOf b))"

section \<open>parseInt\<close>

text \<open>
  \<^verbatim>\<open>parseInt(string)\<close> with no radix, as ECMAScript defines it: the argument is
  converted to a string (\<^verbatim>\<open>undefined\<close> becomes the text "undefined"), leading white
  space is dropped, one sign is read, a \<^verbatim>\<open>0x\<close> or \<^verbatim>\<open>0X\<close> prefix selects radix
  16, the longest prefix of digits is read, and \<^verbatim>\<open>NaN\<close> is returned when that prefix
  is empty.  Whatever follows the digits is ignored.  The result is the double nearest to the
  signed integer the digits denote, a zero keeping the sign that was read.  (Past the 20th
  significant decimal digit ECMAScript lets an implementation read zeros instead; the model
  reads every digit, as V8 does.)
\<close>

definition byte :: "char \<Rightarrow> nat" where
  "byte c = of_char c"

text \<open>
  The length in bytes of the white-space or line-terminator code point at the head of the
  string, 0 when there is none: TAB, LF, VT, FF, CR, SP, U+00A0, U+1680, U+2000 to U+200A,
  U+2028, U+2029, U+202F, U+205F, U+3000 and U+FEFF.
\<close>

definition wsLen :: "string \<Rightarrow> nat" where
  "wsLen s =
     (case map byte (take 3 s) of
        [] \<Rightarrow> 0
      | a # r \<Rightarrow>
          if a = 9 \<or> a = 10 \<or> a = 11 \<or> a = 12 \<or> a = 13 \<or> a = 32 then 1
          else (case r of
              [] \<Rightarrow> 0
            | b # r' \<Rightarrow>
                if a = 194 \<and> b = 160 then 2
                else (case r' of
                    [] \<Rightarrow> 0
                  | c # _ \<Rightarrow>
                      if a = 225 \<and> b = 154 \<and> c = 128 then 3
                      else if a = 226 \<and> b = 128 \<and> 128 \<le> c \<and> c \<le> 138 then 3
                      else if a = 226 \<and> b = 128 \<and> (c = 168 \<or> c = 169 \<or> c = 175) then 3
                      else if a = 226 \<and> b = 129 \<and> c = 159 then 3
                      else if a = 227 \<and> b = 128 \<and> c = 128 then 3
                      else if a = 239 \<and> b = 187 \<and> c = 191 then 3
                      else 0)))"

function trimStart :: "string \<Rightarrow> string" where
  "trimStart s = (if wsLen s = 0 then s else trimStart (drop (wsLen s) s))"
  by pat_completeness auto
termination
proof (relation "measure length")
  show "wf (measure length)" by simp
next
  fix s :: string
  assume "wsLen s \<noteq> 0"
  moreover have "wsLen s \<le> length s"
    by (cases s; cases "tl s"; cases "tl (tl s)") (auto simp: wsLen_def)
  ultimately show "(drop (wsLen s) s, s) \<in> measure length" by simp
qed

declare trimStart.simps [simp del]

text \<open>The value of a digit in radix 10 or 16, \<open>None\<close> for any other character.\<close>

definition digitVal :: "nat \<Rightarrow> char \<Rightarrow> nat option" where
  "digitVal R c =
     (let n = byte c in
      if 48 \<le> n \<and> n \<le> 57 then Some (n - 48)
      else if R = 16 \<and> 97 \<le> n \<and> n \<le> 102 then Some (n - 87)
      else if R = 16 \<and> 65 \<le> n \<and> n \<le> 70 then Some (n - 55)
      else None)"

text \<open>The digits at the head of the string, most significant first.\<close>

fun digits :: "nat \<Rightarrow> string \<Rightarrow> nat list" where
  "digits R [] = []"
| "digits R (c # cs) =
     (case digitVal R c of
        None \<Rightarrow> []
      | Some d \<Rightarrow> d # digits R cs)"

definition mathInt :: "nat \<Rightarrow> nat list \<Rightarrow> nat" where
  "mathInt R ds = foldl (\<lambda>acc d. acc * R + d) 0 ds"

definition parseInt :: "string option \<Rightarrow> number" where
  "parseInt v =
     (let inputString = (case v of None \<Rightarrow> ''undefined'' | Some s \<Rightarrow> s);
          S = trimStart inputString;
          sign = (if take 1 S = ''-'' then - 1 else 1 :: int);
          S1 = (if take 1 S = ''+'' \<or> take 1 S = ''-'' then drop 1 S else S);
          hex = (take 2 S1 = ''0x'' \<or> take 2 S1 = ''0X'');
          R = (if hex then 16 else 10);
          S2 = (if hex then drop 2 S1 else S1);
          Z = digits R S2
      in if Z = [] then NaN
         else if mathInt R Z = 0 then (if sign = - 1 then NegZero else Fin 0)
         else toNumber (sign * int (mathInt R Z)))"


section \<open>Truthiness of strings\<close>

text \<open>A string is truthy when it is not empty; \<^verbatim>\<open>undefined\<close> is falsy.\<close>

definition truthyStr :: "string option \<Rightarrow> bool" where
  "truthyStr v = (case v of None \<Rightarrow> False | Some s \<Rightarrow> s \<noteq> [])"

section \<open>The list route: building the aggregation pipeline\<close>

text \<open>
  \<^verbatim>\<open>req.query\<close> of \<^verbatim>\<open>GET /list\<close>: each of the seven parameters the handler reads is
  a string, or absent.
\<close>

record query =
  keywords_param :: "string option"
  species :: "string option"
  minAge :: "string option"
  maxAge :: "string option"
  sortBy :: "string option"
  pageNumber :: "string option"
  pageSize :: "string option"

text \<open>The match stage (lines 54 to 70 of the source).\<close>

definition list_match :: "query \<Rightarrow> obj" where
  "list_match q =
     (let match0 = [];
          match1 = (case keywords_param q of
                      None \<Rightarrow> match0
                    | Some kw \<Rightarrow>
                        if truthyStr (Some kw)
                        then obj_set match0 ''$text'' (JObj [(''$search'', JStr kw)])
                        else match0);
          match2 = (case species q of
                      None \<Rightarrow> match1
                    | Some sp \<Rightarrow>
                        if truthyStr (Some sp)
                        then obj_set match1 ''species'' (JObj [(''$eq'', JStr sp)])
                        else match1);
          minAge' = parseInt (minAge q);
          maxAge' = parseInt (maxAge q)
      in if truthyNum minAge' \<and> truthyNum maxAge'
         then obj_set match2 ''age'' (JObj [(''$gte'', JNum minAge'), (''$lte'', JNum maxAge')])
         else if truthyNum minAge'
         then obj_set match2 ''age'' (JObj [(''$gte'', JNum minAge')])
         else if truthyNum maxAge'
         then obj_set match2 ''age'' (JObj [(''$lte'', JNum maxAge')])
         else match2)"

text \<open>The sort stage (lines 73 to 105): a \<^verbatim>\<open>switch\<close> on the text of \<^verbatim>\<open>sortBy\<close>.\<close>

definition asc :: jsval where
  "asc = JNum (Fin 1)"

definition desc :: jsval where
  "desc = JNum (Fin (- 1))"

definition list_sort :: "string option \<Rightarrow> obj" where
  "list_sort sb =
     (if sb = Some ''species'' then [(''species'', asc), (''name'', asc), (''createdDate'', asc)]
      else if sb = Some ''species_desc'' then
        [(''species'', desc), (''name'', desc), (''createdDate'', desc)]
      else if sb = Some ''name'' then [(''name'', asc), (''createdDate'', asc)]
      else if sb = Some ''name_desc'' then [(''name'', desc), (''createdDate'', desc)]
      else if sb = Some ''age'' then [(''age'', asc), (''createdDate'', asc)]
      else if sb = Some ''age_desc'' then [(''age'', desc), (''createdDate'', desc)]
      else if sb = Some ''gender'' then [(''gender'', asc), (''name'', asc), (''createdDate'', asc)]
      else if sb = Some ''gender_desc'' then
        [(''gender'', desc), (''name'', desc), (''createdDate'', desc)]
      else if sb = Some ''newest'' then [(''createdDate'', desc)]
      else if sb = Some ''oldest'' then [(''createdDate'', asc)]
      else [(''name'', asc), (''createdDate'', asc)])"

text \<open>The project stage (lines 108 to 117).\<close>

definition list_project :: obj where
  "list_project =
     [(''species'', asc), (''name'', asc), (''age'', asc), (''gender'', asc),
      (''createdBy'', asc), (''createdOn'', asc), (''lastUpdatedBy'', asc),
      (''lastUpdated'', asc)]"

text \<open>The skip and limit stages (lines 120 to 123).\<close>

definition list_pageNumber :: "query \<Rightarrow> number" where
  "list_pageNumber q = orNum (parseInt (pageNumber q)) (Fin 1)"

definition list_pageSize :: "query \<Rightarrow> number" where
  "list_pageSize q = orNum (parseInt (pageSize q)) (Fin 5)"

definition list_skip :: "query \<Rightarrow> number" where
  "list_skip q = mulNum (subNum (list_pageNumber q) (Fin 1)) (list_pageSize q)"

definition list_limit :: "query \<Rightarrow> number" where
  "list_limit q = list_pageSize q"

text \<open>The pipeline (lines 126 to 132).\<close>

definition list_pipeline :: "query \<Rightarrow> jsval" where
  "list_pipeline q =
     JArr [JObj [(''$match'', JObj (list_match q))],
           JObj [(''$sort'', JObj (list_sort (sortBy q)))],
           JObj [(''$project'', JObj list_project)],
           JObj [(''$skip'', JNum (list_skip q))],
           JObj [(''$limit'', JNum (list_limit q))]]"

text \<open>
  What MongoDB makes of the \<^verbatim>\<open>age\<close> entry of a match stage, for a document whose age is
  the integer \<open>a\<close>: \<^verbatim>\<open>$gte\<close> and \<^verbatim>\<open>$lte\<close> are inclusive bounds, a bound that is
  not there constrains nothing, and without an \<^verbatim>\<open>age\<close> entry every age passes.
\<close>

fun atLeastNum :: "int \<Rightarrow> number \<Rightarrow> bool" where
  "atLeastNum a (Fin n) = (n \<le> a)"
| "atLeastNum a NegZero = (0 \<le> a)"
| "atLeastNum a NegInf = True"
| "atLeastNum a _ = False"

fun atMostNum :: "int \<Rightarrow> number \<Rightarrow> bool" where
  "atMostNum a (Fin n) = (a \<le> n)"
| "atMostNum a NegZero = (a \<le> 0)"
| "atMostNum a PosInf = True"
| "atMostNum a _ = False"

definition boundHolds :: "(number \<Rightarrow> bool) \<Rightarrow> jsval option \<Rightarrow> bool" where
  "boundHolds ok v = (case v of Some (JNum n) \<Rightarrow> ok n | _ \<Rightarrow> True)"

definition ageAdmits :: "obj \<Rightarrow> int \<Rightarrow> bool" where
  "ageAdmits match a =
     (case obj_get match ''age'' of
        Some (JObj c) \<Rightarrow>
          boundHolds (atLeastNum a) (obj_get c ''$gte'') \<and>
          boundHolds (atMostNum a) (obj_get c ''$lte'')
      | _ \<Rightarrow> True)"

section \<open>The handlers and what they do to their collaborators\<close>

text \<open>
  The handlers call the persistence functions of \<^verbatim>\<open>../../database\<close>
  (\<^verbatim>\<open>connect\<close>, \<^verbatim>\<open>findPetById\<close>, \<^verbatim>\<open>insertOnePet\<close>, \<^verbatim>\<open>updateOnePet\<close>,
  \<^verbatim>\<open>deleteOnePet\<close>, \<^verbatim>\<open>saveEdit\<close>) and then answer through \<^verbatim>\<open>res\<close> or
  \<^verbatim>\<open>next\<close>.  A handler is modelled by the sequence of these events it produces, in
  order.  What each awaited call gives back (a value, or a thrown error) is an argument of the
  handler, and so are the identifier \<^verbatim>\<open>newId()\<close> returns and the readings of the clock
  (\<^verbatim>\<open>new Date()\<close>).  The \<^verbatim>\<open>debug\<close> lines are left out.  The handlers run behind
  \<^verbatim>\<open>validId\<close>, \<^verbatim>\<open>validBody\<close> and \<^verbatim>\<open>hasPermission\<close>: their arguments are a
  validated identifier, a validated body and the claims of the caller.
\<close>

datatype error = Error string

datatype event =
    Connect
  | Aggregate string jsval
  | FindPetById string
  | InsertOnePet obj
  | UpdateOnePet string obj
  | DeleteOnePet string
  | SaveEdit obj
  | Json nat jsval
  | Next error

text \<open>The events that write to the store: the three mutations and the audit append.\<close>

fun isWrite :: "event \<Rightarrow> bool" where
  "isWrite (InsertOnePet _) = True"
| "isWrite (UpdateOnePet _ _) = True"
| "isWrite (DeleteOnePet _) = True"
| "isWrite (SaveEdit _) = True"
| "isWrite _ = False"

fun isSaveEdit :: "event \<Rightarrow> bool" where
  "isSaveEdit (SaveEdit _) = True"
| "isSaveEdit _ = False"

text \<open>The part of the result of \<^verbatim>\<open>updateOnePet\<close> that the handler reads.\<close>

record updateResult =
  matchedCount :: int

text \<open>\<^verbatim>\<open>router.get('/list')\<close>, lines 46 to 142.\<close>

definition get_list :: "query \<Rightarrow> error + jsval \<Rightarrow> error + jsval list \<Rightarrow> event list" where
  "get_list q connectResult toArrayResult =
     (let pipeline = list_pipeline q in
      case connectResult of
        Inl err \<Rightarrow> [Connect, Next err]
      | Inr db \<Rightarrow>
          (case toArrayResult of
             Inl err \<Rightarrow> [Connect, Aggregate ''pets'' pipeline, Next err]
           | Inr results \<Rightarrow> [Connect, Aggregate ''pets'' pipeline, Json 200 (JArr results)]))"

text \<open>
  \<^verbatim>\<open>router.get('/:petId')\<close>, lines 143 to 155.  \<^verbatim>\<open>findPetById\<close> gives the document
  or \<^verbatim>\<open>null\<close> (here \<open>None\<close>).
\<close>

definition get_petId :: "string \<Rightarrow> error + obj option \<Rightarrow> event list" where
  "get_petId petId findResult =
     (case findResult of
        Inl err \<Rightarrow> [FindPetById petId, Next err]
      | Inr None \<Rightarrow>
          [FindPetById petId,
           Json 404 (JObj [(''error'', JStr (''Pet '' @ petId @ '' not found.''))])]
      | Inr (Some pet) \<Rightarrow> [FindPetById petId, Json 200 (JObj pet)])"

text \<open>The claims of the caller that are stored with a document.\<close>

definition actor :: "obj \<Rightarrow> jsval" where
  "actor auth = JObj (pick auth [''_id'', ''email'', ''fullName'', ''role''])"

text \<open>\<^verbatim>\<open>router.put('/new')\<close>, lines 156 to 193.\<close>

definition newPet :: "obj \<Rightarrow> obj \<Rightarrow> string \<Rightarrow> int \<Rightarrow> obj" where
  "newPet body auth petId createdOn =
     obj_set (obj_set (obj_set body ''_id'' (JId petId)) ''createdBy'' (actor auth))
       ''createdOn'' (JDate createdOn)"

definition put_new ::
  "obj \<Rightarrow> obj \<Rightarrow> string \<Rightarrow> int \<Rightarrow> int \<Rightarrow> error + jsval \<Rightarrow> error + jsval \<Rightarrow> event list" where
  "put_new body auth petId createdOn timestamp insertResult saveResult =
     (let pet = newPet body auth petId createdOn in
      case insertResult of
        Inl err \<Rightarrow> [InsertOnePet pet, Next err]
      | Inr _ \<Rightarrow>
          (let edit = [(''timestamp'', JDate timestamp), (''op'', JStr ''insert''),
                       (''col'', JStr ''pets''), (''target'', JObj [(''petId'', JId petId)]),
                       (''update'', JObj pet), (''auth'', JObj auth)] in
           case saveResult of
             Inl err \<Rightarrow> [InsertOnePet pet, SaveEdit edit, Next err]
           | Inr _ \<Rightarrow>
               [InsertOnePet pet, SaveEdit edit,
                Json 200 (JObj [(''message'', JStr ''Pet inserted.''), (''petId'', JId petId)])]))"

text \<open>\<^verbatim>\<open>router.put('/:petId')\<close>, lines 194 to 242.  First the stamping of lines 204 to 213.\<close>

definition stampUpdate :: "obj \<Rightarrow> obj \<Rightarrow> int \<Rightarrow> obj" where
  "stampUpdate body auth lastUpdated =
     (if \<not> isEmpty body
      then obj_set (obj_set body ''lastUpdatedBy'' (actor auth)) ''lastUpdated'' (JDate lastUpdated)
      else body)"

definition put_petId ::
  "string \<Rightarrow> obj \<Rightarrow> obj \<Rightarrow> int \<Rightarrow> int \<Rightarrow> error + updateResult \<Rightarrow> error + jsval \<Rightarrow> event list"
  where
  "put_petId petId body auth lastUpdated timestamp updateRes saveResult =
     (let update = stampUpdate body auth lastUpdated in
      case updateRes of
        Inl err \<Rightarrow> [UpdateOnePet petId update, Next err]
      | Inr result \<Rightarrow>
          (let edit = [(''timestamp'', JDate timestamp), (''op'', JStr ''update''),
                       (''col'', JStr ''pets''), (''target'', JObj [(''petId'', JId petId)]),
                       (''update'', JObj update), (''auth'', JObj auth)] in
           case saveResult of
             Inl err \<Rightarrow> [UpdateOnePet petId update, SaveEdit edit, Next err]
           | Inr _ \<Rightarrow>
               [UpdateOnePet petId update, SaveEdit edit,
                if matchedCount result > 0
                then Json 200 (JObj [(''message'', JStr ''Pet Updated!''), (''petId'', JId petId)])
                else Json 404 (JObj [(''error'', JStr ''Pet not found!'')])]))"

text \<open>\<^verbatim>\<open>router.delete('/:petId')\<close>, lines 243 to 273.\<close>

definition delete_petId ::
  "string \<Rightarrow> obj \<Rightarrow> int \<Rightarrow> error + jsval \<Rightarrow> error + jsval \<Rightarrow> event list" where
  "delete_petId petId auth timestamp deleteResult saveResult =
     (case deleteResult of
        Inl err \<Rightarrow> [DeleteOnePet petId, Next err]
      | Inr _ \<Rightarrow>
          (let edit = [(''timestamp'', JDate timestamp), (''op'', JStr ''delete''),
                       (''col'', JStr ''pets''), (''target'', JObj [(''petId'', JId petId)]),
                       (''auth'', JObj auth)] in
           case saveResult of
             Inl err \<Rightarrow> [DeleteOnePet petId, SaveEdit edit, Next err]
           | Inr _ \<Rightarrow>
               [DeleteOnePet petId, SaveEdit edit,
                Json 200 (JObj [(''message'', JStr ''Pet Deleted!''), (''petId'', JId petId)])]))"

text \<open>Inputs used in the examples below.\<close>

definition noQuery :: query where
  "noQuery =
     \<lparr>keywords_param = None, species = None, minAge = None, maxAge = None, sortBy = None,
      pageNumber = None, pageSize = None\<rparr>"

definition fido :: obj where
  "fido =
     [(''species'', JStr ''dog''), (''name'', JStr ''Fido''), (''age'', JNum (Fin 3)),
      (''gender'', JStr ''m'')]"

definition vet :: obj where
  "vet =
     [(''_id'', JId ''u1''), (''email'', JStr ''vet@example.com''), (''fullName'', JStr ''Val Vet''),
      (''role'', JStr ''vet''), (''iat'', JNum (Fin 1700000000))]"

section \<open>Evaluating the definitions\<close>

text \<open>
  The recursion equations of \<open>trimStart\<close> and \<open>expo\<close> are not simplification rules;
  these conditional forms of them are, and they stop when the recursion does.
\<close>

lemma trimStart_done: "wsLen s = 0 \<Longrightarrow> trimStart s = s"
  by (subst trimStart.simps) simp

lemma trimStart_more: "wsLen s \<noteq> 0 \<Longrightarrow> trimStart s = trimStart (drop (wsLen s) s)"
  by (subst trimStart.simps) simp

lemma expo_done: "m < 2 ^ 53 \<Longrightarrow> expo m = 0"
  by (subst expo.simps) simp

lemma expo_more: "\<not> m < 2 ^ 53 \<Longrightarrow> expo m = Suc (expo (m div 2))"
  by (subst expo.simps) simp

section \<open>Facts about rounding\<close>

text \<open>
  Below \<open>2 ^ 53\<close> nothing is rounded; rounding keeps the sign and never gives a zero; from
  \<open>2 ^ 1024\<close> on the result is an infinity.
\<close>

lemma expo_le: "0 < m \<Longrightarrow> 2 ^ expo m \<le> m"
proof (induction m rule: expo.induct)
  case (1 m)
  show ?case
  proof (cases "m < 2 ^ 53")
    case True
    with "1.prems" show ?thesis by (simp add: expo_done)
  next
    case False
    then have "0 < m div 2" by simp
    with "1.IH" False have "2 ^ expo (m div 2) \<le> m div 2" by simp
    then have "2 * 2 ^ expo (m div 2) \<le> m" by simp
    with False show ?thesis by (simp add: expo_more)
  qed
qed

lemma expo_div_lt: "m div 2 ^ expo m < 2 ^ 53"
proof (induction m rule: expo.induct)
  case (1 m)
  show ?case
  proof (cases "m < 2 ^ 53")
    case True
    then show ?thesis by (simp add: expo_done)
  next
    case False
    with "1.IH" have "(m div 2) div 2 ^ expo (m div 2) < 2 ^ 53" by simp
    with False show ?thesis by (simp add: expo_more div_mult2_eq)
  qed
qed

lemma expo_div_ge: "0 < expo m \<Longrightarrow> 2 ^ 52 \<le> m div 2 ^ expo m"
proof (induction m rule: expo.induct)
  case (1 m)
  from "1.prems" have big: "\<not> m < 2 ^ 53"
    by (auto simp: expo_done)
  show ?case
  proof (cases "m div 2 < 2 ^ 53")
    case True
    then have "expo (m div 2) = 0" by (rule expo_done)
    moreover from big have "2 ^ 52 \<le> m div 2" by simp
    ultimately show ?thesis using big by (simp add: expo_more)
  next
    case False
    then have "0 < expo (m div 2)" by (simp add: expo_more)
    with "1.IH" big have "2 ^ 52 \<le> (m div 2) div 2 ^ expo (m div 2)" by simp
    with big show ?thesis by (simp add: expo_more div_mult2_eq)
  qed
qed

lemma roundMag_exact: "m < 2 ^ 53 \<Longrightarrow> roundMag m = m"
  by (simp add: roundMag_def expo_done)

lemma roundMag_pos: "0 < m \<Longrightarrow> 0 < roundMag m"
proof -
  assume "0 < m"
  then have "2 ^ expo m \<le> m"
    by (rule expo_le)
  then have "0 < m div 2 ^ expo m"
    by (simp add: div_greater_zero_iff)
  then show ?thesis
    by (simp add: roundMag_def Let_def)
qed

lemma below_overflowBound: "m < 2 ^ 64 \<Longrightarrow> \<not> overflowBound \<le> m"
proof -
  assume "m < 2 ^ 64"
  moreover have "(2::nat) ^ 64 \<le> 2 ^ 1024"
    by (rule power_increasing) simp_all
  ultimately have "m < 2 ^ 1024"
    by (rule less_le_trans)
  then show ?thesis
    unfolding overflowBound_def by simp
qed

lemma toNumber_exact: "\<bar>x\<bar> < 2 ^ 53 \<Longrightarrow> toNumber x = Fin x"
proof -
  assume "\<bar>x\<bar> < 2 ^ 53"
  then have m: "nat \<bar>x\<bar> < 2 ^ 53"
    by (simp add: nat_less_iff)
  have r: "roundMag (nat \<bar>x\<bar>) = nat \<bar>x\<bar>"
    using m by (rule roundMag_exact)
  have "\<not> overflowBound \<le> nat \<bar>x\<bar>"
    using m by (intro below_overflowBound) simp
  then show ?thesis
    unfolding toNumber_def Let_def r by auto
qed

lemma toNumber_negative: "x < 0 \<Longrightarrow> negative (toNumber x)"
  using roundMag_pos [of "nat \<bar>x\<bar>"] by (simp add: toNumber_def Let_def)

lemma toNumber_positive: "0 < x \<Longrightarrow> positive (toNumber x)"
  using roundMag_pos [of "nat \<bar>x\<bar>"] by (simp add: toNumber_def Let_def)

lemma roundMag_overflow:
  assumes "2 ^ 1024 \<le> m"
  shows "overflowBound \<le> roundMag m"
proof -
  let ?e = "expo m"
  let ?q = "m div 2 ^ ?e"
  have "m < (?q + 1) * 2 ^ ?e"
    using dividend_less_times_div [of "2 ^ ?e" m] by (simp add: algebra_simps)
  also have "\<dots> \<le> 2 ^ 53 * 2 ^ ?e"
    using expo_div_lt [of m] by (intro mult_right_mono) simp_all
  finally have "(2::nat) ^ 1024 < 2 ^ (53 + ?e)"
    using assms by (simp add: power_add)
  then have e: "1024 < 53 + ?e"
    by (simp only: power_strict_increasing_iff) 
  then have "0 < ?e" by simp
  then have q: "2 ^ 52 \<le> ?q" by (rule expo_div_ge)
  from e have "(2::nat) ^ 1024 \<le> 2 ^ (52 + ?e)"
    by (intro power_increasing) simp_all
  also have "\<dots> = 2 ^ 52 * 2 ^ ?e"
    by (simp only: power_add)
  also have "\<dots> \<le> ?q * 2 ^ ?e"
    using q by (intro mult_right_mono) simp_all
  also have "\<dots> \<le> roundMag m"
    by (simp add: roundMag_def Let_def)
  finally show ?thesis
    by (simp only: overflowBound_def)
qed

lemma toNumber_overflow:
  "2 ^ 1024 \<le> \<bar>x\<bar> \<Longrightarrow> toNumber x = (if x < 0 then NegInf else PosInf)"
proof -
  assume "2 ^ 1024 \<le> \<bar>x\<bar>"
  then have "2 ^ 1024 \<le> nat \<bar>x\<bar>"
    by (simp add: le_nat_iff)
  then have "overflowBound \<le> roundMag (nat \<bar>x\<bar>)"
    by (rule roundMag_overflow)
  then show ?thesis
    by (simp add: toNumber_def Let_def)
qed

lemma subNum_one_negative: "negative a \<Longrightarrow> negative (subNum a (Fin 1))"
  by (cases a) (simp_all add: subNum_def toNumber_negative)

lemma mulNum_neg_pos: "negative a \<Longrightarrow> positive b \<Longrightarrow> negative (mulNum a b)"
  by (cases a; cases b) (simp_all add: mulNum_def toNumber_negative mult_neg_pos)

lemma mulNum_neg_neg: "negative a \<Longrightarrow> negative b \<Longrightarrow> positive (mulNum a b)"
  by (cases a; cases b) (simp_all add: mulNum_def toNumber_positive mult_neg_neg)

lemmas parseInt_eval =
  parseInt_def trimStart_done trimStart_more wsLen_def byte_def digitVal_def mathInt_def
  toNumber_exact

section \<open>Facts about objects\<close>

lemma obj_get_obj_set: "obj_get (obj_set ob k v) k' = (if k' = k then Some v else obj_get ob k')"
  by (induction ob) (auto simp: obj_get_def)

lemma obj_get_pick: "obj_get (pick ob ks) k = (if k \<in> set ks then obj_get ob k else None)"
  by (induction ks) (auto simp: obj_get_def split: option.splits)

section \<open>Facts about the page window\<close>

text \<open>
  \<^verbatim>\<open>parseInt(x) || d\<close> is \<open>d\<close> when the text does not parse and when it parses to a
  zero, and the parsed number otherwise; so the page number and the page size are never
  \<^verbatim>\<open>NaN\<close> and never a zero.
\<close>

lemma pageNumber_cases:
  "list_pageNumber q =
     (if truthyNum (parseInt (pageNumber q)) then parseInt (pageNumber q) else Fin 1)"
  by (simp add: list_pageNumber_def orNum_def)

lemma pageSize_cases:
  "list_pageSize q =
     (if truthyNum (parseInt (pageSize q)) then parseInt (pageSize q) else Fin 5)"
  by (simp add: list_pageSize_def orNum_def)

lemma pageNumber_truthy: "truthyNum (list_pageNumber q)"
  by (simp add: pageNumber_cases truthyNum_def)

lemma pageSize_truthy: "truthyNum (list_pageSize q)"
  by (simp add: pageSize_cases truthyNum_def)

lemma negative_truthy: "negative v \<Longrightarrow> truthyNum v"
  by (cases v) (simp_all add: truthyNum_def)


lemma skip_exact_nonzero:
  assumes "list_pageNumber q = Fin a" and "list_pageSize q = Fin b"
    and "\<bar>a - 1\<bar> < 2 ^ 53" and "\<bar>(a - 1) * b\<bar> < 2 ^ 53" and "(a - 1) * b \<noteq> 0"
  shows "list_skip q = Fin ((a - 1) * b)"
proof -
  have "subNum (Fin a) (Fin 1) = Fin (a - 1)"
    using assms(3) by (simp add: subNum_def toNumber_exact)
  then show ?thesis
    using assms(1,2,4,5) by (simp add: list_skip_def mulNum_def toNumber_exact)
qed

section \<open>Values of parseInt\<close>

lemma parseInt_undefined: "parseInt None = NaN"
  by (simp add: parseInt_eval)



lemma parseInt_0: "parseInt (Some ''0'') = Fin 0"
  by (simp add: parseInt_eval)

lemma parseInt_m0: "parseInt (Some ''-0'') = NegZero"
  by (simp add: parseInt_eval)

lemma parseInt_m1: "parseInt (Some ''-1'') = Fin (- 1)"
  by (simp add: parseInt_eval)

lemma parseInt_m2: "parseInt (Some ''-2'') = Fin (- 2)"
  by (simp add: parseInt_eval)

lemma parseInt_m5: "parseInt (Some ''-5'') = Fin (- 5)"
  by (simp add: parseInt_eval)


text \<open>Past \<open>2 ^ 53\<close> the parsed number and the product are rounded, as doubles are.\<close>

lemma roundMag_odd: "roundMag 9007199254740993 = 9007199254740992"
  by (simp add: roundMag_def expo_done expo_more)

lemma toNumber_odd: "toNumber 9007199254740993 = Fin 9007199254740992"
  by (simp add: toNumber_def roundMag_odd below_overflowBound)

lemma parseInt_rounds: "parseInt (Some ''9007199254740993'') = Fin 9007199254740992"
  by (simp add: parseInt_def trimStart_done wsLen_def byte_def digitVal_def mathInt_def
      toNumber_odd)

lemma roundMag_product: "roundMag 9007199515875289 = 9007199515875288"
  by (simp add: roundMag_def expo_done expo_more)

lemma toNumber_product: "toNumber 9007199515875289 = Fin 9007199515875288"
  by (simp add: toNumber_def roundMag_product below_overflowBound)

lemma product_rounds:
  "mulNum (subNum (Fin 94906268) (Fin 1)) (Fin 94906267) = Fin 9007199515875288"
  by (simp add: mulNum_def subNum_def toNumber_exact toNumber_product)

text \<open>
  A text that denotes \<open>2 ^ 1024\<close> or more parses to an infinity; as a page size, with
  the default page number, it gives the limit \<^verbatim>\<open>Infinity\<close> and the skip offset
  \<^verbatim>\<open>0 * Infinity\<close>, that is \<^verbatim>\<open>NaN\<close>.
\<close>

lemma toNumber_huge:
  "toNumber 200000000000000000000000000000000000000000000000000000000000000000000000000000000000000000000000000000000000000000000000000000000000000000000000000000000000000000000000000000000000000000000000000000000000000000000000000000000000000000000000000000000000000000000000000000000000000000000000000000000000000000000 = PosInf"
  using toNumber_overflow [of "200000000000000000000000000000000000000000000000000000000000000000000000000000000000000000000000000000000000000000000000000000000000000000000000000000000000000000000000000000000000000000000000000000000000000000000000000000000000000000000000000000000000000000000000000000000000000000000000000000000000000000000"] by simp

lemma parseInt_overflows:
  "parseInt (Some ''200000000000000000000000000000000000000000000000000000000000000000000000000000000000000000000000000000000000000000000000000000000000000000000000000000000000000000000000000000000000000000000000000000000000000000000000000000000000000000000000000000000000000000000000000000000000000000000000000000000000000000000'') = PosInf"
  by (simp add: parseInt_def trimStart_done wsLen_def byte_def digitVal_def mathInt_def
      toNumber_huge)

lemma skip_of_infinite_pageSize:
  "list_limit (noQuery\<lparr>pageSize := Some ''200000000000000000000000000000000000000000000000000000000000000000000000000000000000000000000000000000000000000000000000000000000000000000000000000000000000000000000000000000000000000000000000000000000000000000000000000000000000000000000000000000000000000000000000000000000000000000000000000000000000000000000''\<rparr>) = PosInf \<and>
   list_skip (noQuery\<lparr>pageSize := Some ''200000000000000000000000000000000000000000000000000000000000000000000000000000000000000000000000000000000000000000000000000000000000000000000000000000000000000000000000000000000000000000000000000000000000000000000000000000000000000000000000000000000000000000000000000000000000000000000000000000000000000000000''\<rparr>) = NaN"
  by (simp add: list_limit_def list_skip_def pageNumber_cases pageSize_cases noQuery_def
      parseInt_undefined parseInt_overflows truthyNum_def subNum_def mulNum_def)

text \<open>A page number of 1 with a negative page size gives the negative zero.\<close>

lemma skip_negative_zero: "list_skip (noQuery\<lparr>pageSize := Some ''-5''\<rparr>) = NegZero"
  by (simp add: list_skip_def pageNumber_cases pageSize_cases noQuery_def parseInt_undefined
      parseInt_m5 truthyNum_def subNum_def mulNum_def)

section \<open>The age filter and the sort keys\<close>

text \<open>
  Which ages the match stage lets through: a bound takes part when its text parses to a
  truthy number.  A bound that parses to 0 is dropped like one that does not parse,
  because lines 64 to 70 test the parsed numbers for truthiness.
\<close>

lemma list_match_age:
  "ageAdmits (list_match q) a =
     ((truthyNum (parseInt (minAge q)) \<longrightarrow> atLeastNum a (parseInt (minAge q))) \<and>
      (truthyNum (parseInt (maxAge q)) \<longrightarrow> atMostNum a (parseInt (maxAge q))))"
  by (auto simp: list_match_def Let_def ageAdmits_def boundHolds_def obj_get_obj_set
      truthyStr_def obj_get_def split: option.splits)

text \<open>No sort specification names the field \<^verbatim>\<open>createdOn\<close>.\<close>

lemma list_sort_createdOn: "obj_get (list_sort sb) ''createdOn'' = None"
  by (simp add: list_sort_def obj_get_def)

section \<open>Thrown errors and the list handler\<close>

text \<open>
  An error thrown by the mutation itself goes to \<^verbatim>\<open>next\<close> before any edit record is
  appended, in the update and in the delete handler as in the create handler.
\<close>

lemma put_petId_update_throws:
  "put_petId petId body auth t1 t2 (Inl err) sv =
     [UpdateOnePet petId (stampUpdate body auth t1), Next err]"
  by (simp add: put_petId_def Let_def)

lemma delete_petId_delete_throws:
  "delete_petId petId auth t (Inl err) sv = [DeleteOnePet petId, Next err]"
  by (simp add: delete_petId_def)

text \<open>The list handler only reads.\<close>

lemma get_list_reads_only: "filter isWrite (get_list q connectResult toArrayResult) = []"
  by (cases connectResult; cases toArrayResult) (simp_all add: get_list_def Let_def)

section \<open>The claims\<close>

text \<open>
  C1 (the source departs from it).  The claim: each of \<^verbatim>\<open>minAge\<close> and \<^verbatim>\<open>maxAge\<close>
  that parses as an integer contributes its side of the inclusive age range.  For
  \<^verbatim>\<open>GET /list?maxAge=0\<close> the bound parses to 0, yet the match stage is empty and a pet of
  age 7 passes the filter: the truthiness tests of lines 64 to 70 drop a bound of 0, although
  0 is an age the schemas of lines 29 to 40 accept.
\<close>

theorem C1_maxAge_zero_is_dropped:
  "parseInt (maxAge (noQuery\<lparr>maxAge := Some ''0''\<rparr>)) = Fin 0 \<and>
   list_match (noQuery\<lparr>maxAge := Some ''0''\<rparr>) = [] \<and>
   ageAdmits (list_match (noQuery\<lparr>maxAge := Some ''0''\<rparr>)) 7"
  by (simp add: noQuery_def list_match_def parseInt_0 parseInt_undefined truthyNum_def
      ageAdmits_def obj_get_def)

text \<open>
  C2 (the source departs from it).  The claim: the sorts break ties on \<^verbatim>\<open>createdOn\<close>,
  \<^verbatim>\<open>newest\<close> and \<^verbatim>\<open>oldest\<close> sort by \<^verbatim>\<open>createdOn\<close> alone, and the fallback is
  name then \<^verbatim>\<open>createdOn\<close>.  The sort stage of lines 73 to 105 names
  \<^verbatim>\<open>createdDate\<close> instead, a field that \<^verbatim>\<open>PUT /new\<close> (line 167) does not set
  on the document it assembles: that document has \<^verbatim>\<open>createdOn\<close>, as the projection
  of line 114 has.
\<close>

theorem C2_sort_names_createdDate:
  "list_sort (Some ''newest'') = [(''createdDate'', JNum (Fin (- 1)))] \<and>
   list_sort (Some ''oldest'') = [(''createdDate'', JNum (Fin 1))] \<and>
   list_sort None = [(''name'', JNum (Fin 1)), (''createdDate'', JNum (Fin 1))] \<and>
   obj_get (list_sort (Some ''newest'')) ''createdOn'' = None \<and>
   obj_get (newPet fido vet ''p1'' 10) ''createdOn'' = Some (JDate 10) \<and>
   obj_get (newPet fido vet ''p1'' 10) ''createdDate'' = None"
  by (simp add: list_sort_def asc_def desc_def obj_get_def newPet_def fido_def)

text \<open>
  C10.  Each of the four descending single-field sorts also sorts its tiebreak keys
  descending: every direction of \<^verbatim>\<open>species_desc\<close>, \<^verbatim>\<open>name_desc\<close>,
  \<^verbatim>\<open>age_desc\<close> and \<^verbatim>\<open>gender_desc\<close> is \<open>-1\<close>, the second key and, for
  \<^verbatim>\<open>species_desc\<close> and \<^verbatim>\<open>gender_desc\<close>, the third key included.
\<close>

theorem C10_descending_tiebreaks:
  "list_sort (Some ''species_desc'') =
     [(''species'', JNum (Fin (- 1))), (''name'', JNum (Fin (- 1))),
      (''createdDate'', JNum (Fin (- 1)))] \<and>
   list_sort (Some ''name_desc'') =
     [(''name'', JNum (Fin (- 1))), (''createdDate'', JNum (Fin (- 1)))] \<and>
   list_sort (Some ''age_desc'') =
     [(''age'', JNum (Fin (- 1))), (''createdDate'', JNum (Fin (- 1)))] \<and>
   list_sort (Some ''gender_desc'') =
     [(''gender'', JNum (Fin (- 1))), (''name'', JNum (Fin (- 1))),
      (''createdDate'', JNum (Fin (- 1)))]"
  by (simp add: list_sort_def desc_def)



text \<open>
  C9 as stated fails for a negative page size: \<^verbatim>\<open>pageNumber=-1\<close> with
  \<^verbatim>\<open>pageSize=-5\<close> keeps the negative page number and gives the skip offset
  (-1 - 1) * (-5) = 10, which is not negative.
\<close>

theorem C9_negative_page_positive_skip:
  "parseInt (pageNumber (noQuery\<lparr>pageNumber := Some ''-1'', pageSize := Some ''-5''\<rparr>)) = Fin (- 1) \<and>
   list_pageNumber (noQuery\<lparr>pageNumber := Some ''-1'', pageSize := Some ''-5''\<rparr>) = Fin (- 1) \<and>
   list_skip (noQuery\<lparr>pageNumber := Some ''-1'', pageSize := Some ''-5''\<rparr>) = Fin 10"
  by (simp add: list_skip_def subNum_def mulNum_def pageNumber_cases pageSize_cases
      parseInt_m1 parseInt_m5 truthyNum_def toNumber_exact)

text \<open>
  C9, amended.  The text \<^verbatim>\<open>0\<close> parses to 0, and a page number or page size that parses
  to a zero is replaced by the default 1, respectively 5.  A negative parsed value is kept
  as it is, for the page number and for the page size (which is also the limit).  A
  negative page number together with a positive page size gives a negative skip offset, and
  together with a negative page size a positive one; while the page number less one and the
  product stay below \<open>2 ^ 53\<close> in magnitude the offset is the integer
  (pageNumber - 1) * pageSize.  The pipeline carries the offset and the limit unchanged.
\<close>

theorem C9_zero_defaults_negative_kept:
  "parseInt (Some ''0'') = Fin 0 \<and>
   (isZero (parseInt (pageNumber q)) \<longrightarrow> list_pageNumber q = Fin 1) \<and>
   (isZero (parseInt (pageSize q)) \<longrightarrow> list_pageSize q = Fin 5) \<and>
   (negative (parseInt (pageNumber q)) \<longrightarrow> list_pageNumber q = parseInt (pageNumber q)) \<and>
   (negative (parseInt (pageSize q)) \<longrightarrow>
      list_pageSize q = parseInt (pageSize q) \<and> list_limit q = parseInt (pageSize q)) \<and>
   (negative (parseInt (pageNumber q)) \<and> positive (list_pageSize q) \<longrightarrow>
      negative (list_skip q)) \<and>
   (negative (parseInt (pageNumber q)) \<and> negative (list_pageSize q) \<longrightarrow>
      positive (list_skip q)) \<and>
   (parseInt (pageNumber q) = Fin n \<and> n < 0 \<and> list_pageSize q = Fin ps \<and>
    \<bar>n - 1\<bar> < 2 ^ 53 \<and> \<bar>(n - 1) * ps\<bar> < 2 ^ 53 \<longrightarrow>
      list_skip q = Fin ((n - 1) * ps)) \<and>
   list_pipeline q =
     JArr [JObj [(''$match'', JObj (list_match q))],
         JObj [(''$sort'', JObj (list_sort (sortBy q)))],
         JObj [(''$project'', JObj list_project)],
         JObj [(''$skip'', JNum (list_skip q))],
         JObj [(''$limit'', JNum (list_limit q))]]"
proof -
  have z1: "isZero (parseInt (pageNumber q)) \<longrightarrow> list_pageNumber q = Fin 1"
    by (simp add: pageNumber_cases truthyNum_def)
  have z2: "isZero (parseInt (pageSize q)) \<longrightarrow> list_pageSize q = Fin 5"
    by (simp add: pageSize_cases truthyNum_def)
  have k1: "negative (parseInt (pageNumber q)) \<longrightarrow> list_pageNumber q = parseInt (pageNumber q)"
    by (simp add: pageNumber_cases negative_truthy)
  have k2: "negative (parseInt (pageSize q)) \<longrightarrow>
      list_pageSize q = parseInt (pageSize q) \<and> list_limit q = parseInt (pageSize q)"
    by (simp add: pageSize_cases list_limit_def negative_truthy)
  have s1: "negative (parseInt (pageNumber q)) \<and> positive (list_pageSize q) \<longrightarrow>
      negative (list_skip q)"
  proof
    assume h: "negative (parseInt (pageNumber q)) \<and> positive (list_pageSize q)"
    with k1 have "negative (list_pageNumber q)"
      by simp
    then have "negative (subNum (list_pageNumber q) (Fin 1))"
      by (rule subNum_one_negative)
    with h show "negative (list_skip q)"
      by (simp add: list_skip_def mulNum_neg_pos)
  qed
  have s2: "negative (parseInt (pageNumber q)) \<and> negative (list_pageSize q) \<longrightarrow>
      positive (list_skip q)"
  proof
    assume h: "negative (parseInt (pageNumber q)) \<and> negative (list_pageSize q)"
    with k1 have "negative (list_pageNumber q)"
      by simp
    then have "negative (subNum (list_pageNumber q) (Fin 1))"
      by (rule subNum_one_negative)
    with h show "positive (list_skip q)"
      by (simp add: list_skip_def mulNum_neg_neg)
  qed
  have x: "parseInt (pageNumber q) = Fin n \<and> n < 0 \<and> list_pageSize q = Fin ps \<and>
      \<bar>n - 1\<bar> < 2 ^ 53 \<and> \<bar>(n - 1) * ps\<bar> < 2 ^ 53 \<longrightarrow>
      list_skip q = Fin ((n - 1) * ps)"
  proof
    assume h: "parseInt (pageNumber q) = Fin n \<and> n < 0 \<and> list_pageSize q = Fin ps \<and>
      \<bar>n - 1\<bar> < 2 ^ 53 \<and> \<bar>(n - 1) * ps\<bar> < 2 ^ 53"
    then have pn: "list_pageNumber q = Fin n"
      by (simp add: pageNumber_cases truthyNum_def)
    from h pageSize_truthy [of q] have "ps \<noteq> 0"
      by (auto simp: truthyNum_def)
    with h have nz: "(n - 1) * ps \<noteq> 0"
      by simp
    from h have sz: "list_pageSize q = Fin ps"
      and b1: "\<bar>n - 1\<bar> < 2 ^ 53" and b2: "\<bar>(n - 1) * ps\<bar> < 2 ^ 53"
      by blast+
    show "list_skip q = Fin ((n - 1) * ps)"
      by (rule skip_exact_nonzero [OF pn sz b1 b2 nz])
  qed
  have p: "list_pipeline q =
     JArr [JObj [(''$match'', JObj (list_match q))],
         JObj [(''$sort'', JObj (list_sort (sortBy q)))],
         JObj [(''$project'', JObj list_project)],
         JObj [(''$skip'', JNum (list_skip q))],
         JObj [(''$limit'', JNum (list_limit q))]]"
    by (simp add: list_pipeline_def)
  from parseInt_0 z1 z2 k1 k2 s1 s2 x p show ?thesis
    by blast
qed

text \<open>
  C9, amended, at \<^verbatim>\<open>pageNumber=0&pageSize=0\<close>, at \<^verbatim>\<open>pageNumber=-2\<close> (skip -15 with
  the default page size), at \<^verbatim>\<open>pageSize=-5\<close> and at \<^verbatim>\<open>pageNumber=-1&pageSize=-5\<close>
  (a positive skip).
\<close>

theorem C9_zero_defaults_negative_kept_witness:
  "list_pageNumber (noQuery\<lparr>pageNumber := Some ''0'', pageSize := Some ''0''\<rparr>) = Fin 1 \<and>
   list_pageSize (noQuery\<lparr>pageNumber := Some ''0'', pageSize := Some ''0''\<rparr>) = Fin 5 \<and>
   list_pageNumber (noQuery\<lparr>pageNumber := Some ''-2''\<rparr>) = Fin (- 2) \<and>
   negative (list_skip (noQuery\<lparr>pageNumber := Some ''-2''\<rparr>)) \<and>
   list_skip (noQuery\<lparr>pageNumber := Some ''-2''\<rparr>) = Fin (- 15) \<and>
   list_pageSize (noQuery\<lparr>pageSize := Some ''-5''\<rparr>) = Fin (- 5) \<and>
   list_limit (noQuery\<lparr>pageSize := Some ''-5''\<rparr>) = Fin (- 5) \<and>
   positive (list_skip (noQuery\<lparr>pageNumber := Some ''-1'', pageSize := Some ''-5''\<rparr>))"
proof -
  let ?z = "noQuery\<lparr>pageNumber := Some ''0'', pageSize := Some ''0''\<rparr>"
  let ?n = "noQuery\<lparr>pageNumber := Some ''-2''\<rparr>"
  let ?s = "noQuery\<lparr>pageSize := Some ''-5''\<rparr>"
  let ?b = "noQuery\<lparr>pageNumber := Some ''-1'', pageSize := Some ''-5''\<rparr>"
  have hz: "isZero (parseInt (pageNumber ?z)) \<and> isZero (parseInt (pageSize ?z))"
    by (simp add: parseInt_0)
  have pn: "parseInt (pageNumber ?n) = Fin (- 2)"
    by (simp add: parseInt_m2)
  have sn: "list_pageSize ?n = Fin 5"
    by (simp add: pageSize_cases noQuery_def parseInt_undefined truthyNum_def)
  have hn: "negative (parseInt (pageNumber ?n)) \<and> positive (list_pageSize ?n)"
    by (simp add: parseInt_m2 sn)
  have hx: "parseInt (pageNumber ?n) = Fin (- 2) \<and> (- 2 :: int) < 0 \<and>
            list_pageSize ?n = Fin 5 \<and>
            \<bar>- 2 - 1 :: int\<bar> < 2 ^ 53 \<and> \<bar>(- 2 - 1) * 5 :: int\<bar> < 2 ^ 53"
    by (simp add: parseInt_m2 sn)
  have ps: "parseInt (pageSize ?s) = Fin (- 5)"
    by (simp add: parseInt_m5)
  have hs: "negative (parseInt (pageSize ?s))"
    by (simp add: parseInt_m5)
  have hb: "negative (parseInt (pageNumber ?b)) \<and> negative (list_pageSize ?b)"
    by (simp add: parseInt_m1 parseInt_m5 pageSize_cases truthyNum_def)
  from hz C9_zero_defaults_negative_kept [of ?z]
  have r1: "list_pageNumber ?z = Fin 1 \<and> list_pageSize ?z = Fin 5"
    by blast
  from hn hx C9_zero_defaults_negative_kept [of ?n "- 2" 5]
  have r2: "list_pageNumber ?n = parseInt (pageNumber ?n) \<and> negative (list_skip ?n) \<and>
            list_skip ?n = Fin ((- 2 - 1) * 5)"
    by blast
  from hs C9_zero_defaults_negative_kept [of ?s]
  have r3: "list_pageSize ?s = parseInt (pageSize ?s) \<and> list_limit ?s = parseInt (pageSize ?s)"
    by blast
  from hb C9_zero_defaults_negative_kept [of ?b]
  have r4: "positive (list_skip ?b)"
    by blast
  from r1 r2 r3 r4 show ?thesis
    by (simp add: parseInt_m2 parseInt_m5)
qed

text \<open>
  C3.  When \<^verbatim>\<open>updateOnePet\<close> returns, whatever its matched count, the update handler
  appends one edit record with \<^verbatim>\<open>op\<close> update, the identifier as target, the stamped
  payload as \<^verbatim>\<open>update\<close> and the caller's claims as \<^verbatim>\<open>auth\<close>, after the update and
  before the response; the append is made exactly once whatever it returns.  The response
  is the success message with the identifier exactly when the matched count is positive,
  and the 404 answer otherwise.  (When \<^verbatim>\<open>updateOnePet\<close> throws instead, see
  \<open>put_petId_update_throws\<close>.)
\<close>

theorem C3_update_audits_then_responds:
  "put_petId petId body auth t1 t2 (Inr r) (Inr u) =
     [UpdateOnePet petId (stampUpdate body auth t1),
      SaveEdit [(''timestamp'', JDate t2), (''op'', JStr ''update''), (''col'', JStr ''pets''),
                (''target'', JObj [(''petId'', JId petId)]),
                (''update'', JObj (stampUpdate body auth t1)), (''auth'', JObj auth)],
      if 0 < matchedCount r
      then Json 200 (JObj [(''message'', JStr ''Pet Updated!''), (''petId'', JId petId)])
      else Json 404 (JObj [(''error'', JStr ''Pet not found!'')])] \<and>
   filter isSaveEdit (put_petId petId body auth t1 t2 (Inr r) sv) =
     [SaveEdit [(''timestamp'', JDate t2), (''op'', JStr ''update''), (''col'', JStr ''pets''),
                (''target'', JObj [(''petId'', JId petId)]),
                (''update'', JObj (stampUpdate body auth t1)), (''auth'', JObj auth)]] \<and>
   (last (put_petId petId body auth t1 t2 (Inr r) (Inr u)) =
      Json 200 (JObj [(''message'', JStr ''Pet Updated!''), (''petId'', JId petId)])) =
     (0 < matchedCount r)"
  by (cases sv) (simp_all add: put_petId_def Let_def)

text \<open>
  C4.  The create handler inserts first and appends the edit record second.  When the insert
  throws, the error goes to \<^verbatim>\<open>next\<close> and no edit record is appended.  When the insert
  returns, exactly one edit record is appended, before the response, with \<^verbatim>\<open>op\<close> insert,
  the identifier as target, the assembled document as \<^verbatim>\<open>update\<close> and the caller's claims
  as \<^verbatim>\<open>auth\<close>.  The assembled document is the body with \<^verbatim>\<open>_id\<close>,
  \<^verbatim>\<open>createdBy\<close> and \<^verbatim>\<open>createdOn\<close> set.
\<close>

theorem C4_create_inserts_then_audits:
  "put_new body auth petId t1 t2 (Inl err) sv =
     [InsertOnePet (newPet body auth petId t1), Next err] \<and>
   filter isSaveEdit (put_new body auth petId t1 t2 (Inl err) sv) = [] \<and>
   put_new body auth petId t1 t2 (Inr r) (Inr u) =
     [InsertOnePet (newPet body auth petId t1),
      SaveEdit [(''timestamp'', JDate t2), (''op'', JStr ''insert''), (''col'', JStr ''pets''),
                (''target'', JObj [(''petId'', JId petId)]),
                (''update'', JObj (newPet body auth petId t1)), (''auth'', JObj auth)],
      Json 200 (JObj [(''message'', JStr ''Pet inserted.''), (''petId'', JId petId)])] \<and>
   filter isSaveEdit (put_new body auth petId t1 t2 (Inr r) sv) =
     [SaveEdit [(''timestamp'', JDate t2), (''op'', JStr ''insert''), (''col'', JStr ''pets''),
                (''target'', JObj [(''petId'', JId petId)]),
                (''update'', JObj (newPet body auth petId t1)), (''auth'', JObj auth)]] \<and>
   obj_get (newPet body auth petId t1) k =
     (if k = ''createdOn'' then Some (JDate t1)
      else if k = ''createdBy'' then Some (JObj (pick auth [''_id'', ''email'', ''fullName'', ''role'']))
      else if k = ''_id'' then Some (JId petId)
      else obj_get body k)"
  by (cases sv) (simp_all add: put_new_def Let_def newPet_def obj_get_obj_set actor_def)

text \<open>
  C5.  When \<^verbatim>\<open>deleteOnePet\<close> returns, whatever it returns (the handler never reads
  it), the delete handler appends exactly one edit record with \<^verbatim>\<open>op\<close> delete, the
  identifier as target, the caller's claims as \<^verbatim>\<open>auth\<close> and no \<^verbatim>\<open>update\<close> key, and
  then answers with the success message and the identifier.
\<close>

theorem C5_delete_always_audits:
  "delete_petId petId auth t (Inr r) (Inr u) =
     [DeleteOnePet petId,
      SaveEdit [(''timestamp'', JDate t), (''op'', JStr ''delete''), (''col'', JStr ''pets''),
                (''target'', JObj [(''petId'', JId petId)]), (''auth'', JObj auth)],
      Json 200 (JObj [(''message'', JStr ''Pet Deleted!''), (''petId'', JId petId)])] \<and>
   filter isSaveEdit (delete_petId petId auth t (Inr r) sv) =
     [SaveEdit [(''timestamp'', JDate t), (''op'', JStr ''delete''), (''col'', JStr ''pets''),
                (''target'', JObj [(''petId'', JId petId)]), (''auth'', JObj auth)]] \<and>
   obj_get [(''timestamp'', JDate t), (''op'', JStr ''delete''), (''col'', JStr ''pets''),
            (''target'', JObj [(''petId'', JId petId)]), (''auth'', JObj auth)] ''update'' = None"
  by (cases sv) (simp_all add: delete_petId_def Let_def obj_get_def)

text \<open>
  C7.  A non-empty payload is stamped with \<^verbatim>\<open>lastUpdatedBy\<close> (the keys \<^verbatim>\<open>_id\<close>,
  \<^verbatim>\<open>email\<close>, \<^verbatim>\<open>fullName\<close> and \<^verbatim>\<open>role\<close> of the caller's claims) and
  \<^verbatim>\<open>lastUpdated\<close> (the clock), its other keys are unchanged, and the stamped payload is
  what \<^verbatim>\<open>updateOnePet\<close> receives.  An empty payload stays empty: the update applied is
  empty and the edit record, which is still appended, has an empty \<^verbatim>\<open>update\<close>.
\<close>

theorem C7_update_stamp:
  "(body \<noteq> [] \<longrightarrow>
      stampUpdate body auth t =
        obj_set (obj_set body ''lastUpdatedBy''
                   (JObj (pick auth [''_id'', ''email'', ''fullName'', ''role''])))
          ''lastUpdated'' (JDate t) \<and>
      obj_get (stampUpdate body auth t) ''lastUpdatedBy'' =
        Some (JObj (pick auth [''_id'', ''email'', ''fullName'', ''role''])) \<and>
      obj_get (stampUpdate body auth t) ''lastUpdated'' = Some (JDate t)) \<and>
   (k \<noteq> ''lastUpdatedBy'' \<and> k \<noteq> ''lastUpdated'' \<longrightarrow>
      obj_get (stampUpdate body auth t) k = obj_get body k) \<and>
   obj_get (pick auth [''_id'', ''email'', ''fullName'', ''role'']) k =
     (if k \<in> {''_id'', ''email'', ''fullName'', ''role''} then obj_get auth k else None) \<and>
   hd (put_petId petId body auth t t' ur sv) = UpdateOnePet petId (stampUpdate body auth t) \<and>
   stampUpdate [] auth t = [] \<and>
   put_petId petId [] auth t t' (Inr r) (Inr u) =
     [UpdateOnePet petId [],
      SaveEdit [(''timestamp'', JDate t'), (''op'', JStr ''update''), (''col'', JStr ''pets''),
                (''target'', JObj [(''petId'', JId petId)]),
                (''update'', JObj []), (''auth'', JObj auth)],
      if 0 < matchedCount r
      then Json 200 (JObj [(''message'', JStr ''Pet Updated!''), (''petId'', JId petId)])
      else Json 404 (JObj [(''error'', JStr ''Pet not found!'')])]"
proof -
  have a: "body \<noteq> [] \<longrightarrow>
      stampUpdate body auth t =
        obj_set (obj_set body ''lastUpdatedBy''
                   (JObj (pick auth [''_id'', ''email'', ''fullName'', ''role''])))
          ''lastUpdated'' (JDate t) \<and>
      obj_get (stampUpdate body auth t) ''lastUpdatedBy'' =
        Some (JObj (pick auth [''_id'', ''email'', ''fullName'', ''role''])) \<and>
      obj_get (stampUpdate body auth t) ''lastUpdated'' = Some (JDate t)"
    by (simp add: stampUpdate_def isEmpty_def actor_def obj_get_obj_set)
  have b: "k \<noteq> ''lastUpdatedBy'' \<and> k \<noteq> ''lastUpdated'' \<longrightarrow>
      obj_get (stampUpdate body auth t) k = obj_get body k"
    by (simp add: stampUpdate_def obj_get_obj_set)
  have c: "obj_get (pick auth [''_id'', ''email'', ''fullName'', ''role'']) k =
     (if k \<in> {''_id'', ''email'', ''fullName'', ''role''} then obj_get auth k else None)"
    by (simp only: obj_get_pick) simp
  have d: "hd (put_petId petId body auth t t' ur sv) = UpdateOnePet petId (stampUpdate body auth t)"
    by (cases ur; cases sv) (simp_all add: put_petId_def Let_def)
  have e: "stampUpdate [] auth t = []"
    by (simp add: stampUpdate_def isEmpty_def)
  have f: "put_petId petId [] auth t t' (Inr r) (Inr u) =
     [UpdateOnePet petId [],
      SaveEdit [(''timestamp'', JDate t'), (''op'', JStr ''update''), (''col'', JStr ''pets''),
                (''target'', JObj [(''petId'', JId petId)]),
                (''update'', JObj []), (''auth'', JObj auth)],
      if 0 < matchedCount r
      then Json 200 (JObj [(''message'', JStr ''Pet Updated!''), (''petId'', JId petId)])
      else Json 404 (JObj [(''error'', JStr ''Pet not found!'')])]"
    by (simp add: put_petId_def Let_def e)
  from a b c d e f show ?thesis
    by blast
qed

text \<open>C7 at the payload \<^verbatim>\<open>{age: 4}\<close>.\<close>

theorem C7_update_stamp_witness:
  "stampUpdate [(''age'', JNum (Fin 4))] vet 20 =
     [(''age'', JNum (Fin 4)),
      (''lastUpdatedBy'',
       JObj [(''_id'', JId ''u1''), (''email'', JStr ''vet@example.com''),
             (''fullName'', JStr ''Val Vet''), (''role'', JStr ''vet'')]),
      (''lastUpdated'', JDate 20)] \<and>
   obj_get (stampUpdate [(''age'', JNum (Fin 4))] vet 20) ''age'' = Some (JNum (Fin 4))"
proof -
  have h: "[(''age'', JNum (Fin 4))] \<noteq> []"
    by simp
  have k: "''age'' \<noteq> ''lastUpdatedBy'' \<and> ''age'' \<noteq> ''lastUpdated''"
    by simp
  from h k C7_update_stamp [of "[(''age'', JNum (Fin 4))]" vet 20 "''age''"]
  have "stampUpdate [(''age'', JNum (Fin 4))] vet 20 =
        obj_set (obj_set [(''age'', JNum (Fin 4))] ''lastUpdatedBy''
                   (JObj (pick vet [''_id'', ''email'', ''fullName'', ''role''])))
          ''lastUpdated'' (JDate 20) \<and>
        obj_get (stampUpdate [(''age'', JNum (Fin 4))] vet 20) ''age'' =
          obj_get [(''age'', JNum (Fin 4))] ''age''"
    by blast
  then show ?thesis
    by (simp add: vet_def obj_get_def)
qed

text \<open>
  C8.  The get-by-id handler answers with the pet when \<^verbatim>\<open>findPetById\<close> finds one, with
  status 404 and an error body when it finds none, and passes a thrown error to
  \<^verbatim>\<open>next\<close>; these are three different outcomes, and in none of them does the handler
  write.
\<close>

theorem C8_get_by_id:
  "get_petId petId (Inr (Some pet)) = [FindPetById petId, Json 200 (JObj pet)] \<and>
   get_petId petId (Inr None) =
     [FindPetById petId,
      Json 404 (JObj [(''error'', JStr (''Pet '' @ petId @ '' not found.''))])] \<and>
   get_petId petId (Inl err) = [FindPetById petId, Next err] \<and>
   filter isWrite (get_petId petId findResult) = []"
proof -
  have "filter isWrite (get_petId petId findResult) = []"
    by (cases findResult) (simp_all add: get_petId_def split: option.splits)
  then show ?thesis
    by (simp add: get_petId_def)
qed

end
